theory Spec2Isabelle
  imports Main "HOL-Library.Multiset" "HOL-Library.Char_ord" "HOL-Library.List_Lexorder"
begin

section \<open>Data model\<close>

text \<open>
  Payloads typed \<open>Dict[str, Any]\<close> in the source are JSON values. A JSON object is an
  association list read with \<open>map_of\<close>. Byte counts are integers; JSON floating-point
  numbers are not part of the model. Characters are code points below 256.
\<close>

datatype json =
    JNull
  | JBool bool
  | JInt int
  | JStr string
  | JArr "json list"
  | JObj "(string \<times> json) list"

datatype error =
    TypeError
  | AttributeError
  | ValueError string
  | OverflowError
  | IndexError
  | KeyError
  | ConfigValidationError string
  | HTTPException nat string

text \<open>Python truthiness of a JSON value (\<open>if x:\<close>).\<close>

fun truthy :: "json \<Rightarrow> bool" where
  "truthy JNull = False"
| "truthy (JBool b) = b"
| "truthy (JInt n) = (n \<noteq> 0)"
| "truthy (JStr s) = (s \<noteq> [])"
| "truthy (JArr xs) = (xs \<noteq> [])"
| "truthy (JObj kvs) = (kvs \<noteq> [])"

text \<open>\<open>d.get(k, default)\<close>: \<open>AttributeError\<close> when \<open>d\<close> is not a dict.\<close>

fun py_get :: "json \<Rightarrow> string \<Rightarrow> json \<Rightarrow> error + json" where
  "py_get (JObj kvs) k dflt = Inr (case map_of kvs k of None \<Rightarrow> dflt | Some v \<Rightarrow> v)"
| "py_get _ k dflt = Inl AttributeError"

text \<open>
  The derived summary \<open>job_summary.json\<close> is a dict from field names to JSON values;
  the file is absent (\<open>None\<close>) until the first update writes it.
\<close>

type_synonym summary = "string \<rightharpoonup> json"

definition setdefault :: "summary \<Rightarrow> string \<Rightarrow> json \<Rightarrow> summary" where
  "setdefault m k v = (case m k of None \<Rightarrow> m(k \<mapsto> v) | Some _ \<Rightarrow> m)"

definition load_summary :: "summary option \<Rightarrow> summary" where
  "load_summary f = (case f of None \<Rightarrow> Map.empty | Some m \<Rightarrow> m)"

section \<open>Event ingest\<close>

text \<open>
  \<open>_update_summary_from_event\<close> (storage.py 1006-1047). \<open>ts\<close> is
  \<open>timestamp.isoformat()\<close> of the event, \<open>now\<close> the text of the second
  \<open>datetime.now()\<close> that stamps \<open>last_updated\<close>. \<open>extra\<close> is the optional
  dict of the event; \<open>extra.get('action') if extra else None\<close>.
\<close>

definition event_action :: "(string \<times> json) list option \<Rightarrow> json" where
  "event_action extra =
     (case extra of
        None \<Rightarrow> JNull
      | Some kvs \<Rightarrow> if kvs = [] then JNull
                   else (case map_of kvs ''action'' of None \<Rightarrow> JNull | Some v \<Rightarrow> v))"

definition event_gate :: "string \<Rightarrow> (string \<times> json) list option \<Rightarrow> bool" where
  "event_gate event_type extra \<longleftrightarrow>
     event_type \<in> set [''success'', ''failed''] \<and> event_action extra = JStr ''everything''"

definition event_defaults :: "summary \<Rightarrow> summary" where
  "event_defaults c0 =
     (let c1 = setdefault c0 ''archive_count'' (JInt 0);
          c2 = setdefault c1 ''full_size'' (JStr ''0 B'');
          c3 = setdefault c2 ''compressed_size'' (JStr ''0 B'');
          c4 = setdefault c3 ''deduplicated_size'' (JStr ''0 B'');
          c5 = setdefault c4 ''compression_ratio'' (JStr ''0%'');
          c6 = setdefault c5 ''repository_path'' (JStr '''');
          c7 = setdefault c6 ''backup_type'' (JStr ''borgmatic'')
      in c7)"

definition update_summary_from_event ::
  "summary option \<Rightarrow> string \<Rightarrow> string \<Rightarrow> string \<Rightarrow> string \<Rightarrow> (string \<times> json) list option
     \<Rightarrow> summary option" where
  "update_summary_from_event file job_id event_type ts now extra =
     (let c0 = load_summary file;
          c1 = (if event_gate event_type extra
                then (let a = c0(''status'' \<mapsto> JStr event_type);
                          b = a(''last_backup'' \<mapsto> JStr ts)
                      in if event_type = ''success''
                         then b(''last_successful_backup'' \<mapsto> JStr ts) else b)
                else c0);
          c2 = c1(''last_updated'' \<mapsto> JStr now);
          c3 = c2(''job_id'' \<mapsto> JStr job_id)
      in Some (event_defaults c3))"

section \<open>Values read from datetimes\<close>





section \<open>Run ingest\<close>

text \<open>
  The run pushed through \<open>/api/push/status\<close> (\<open>PushStatusRequest\<close>,
  push_models.py 12-21): \<open>status\<close> is one of four literals and \<open>start_time\<close> is a
  required datetime, so \<open>run_data.get('status')\<close> and
  \<open>run_data.get('start_time')\<close> are always truthy in the store.
\<close>

datatype run_status = Success | Failed | Running | Warning



text \<open>One element of \<open>runs.json\<close> and the content of \<open>run_<id>.json\<close>.\<close>

record run_entry =
  re_id :: string
  re_status :: string
  re_timestamp :: string
  re_end_timestamp :: "string option"
  re_exit_code :: "int option"
  re_error_message :: "string option"
  re_duration :: "string option"

record event_data =
  ev_id :: string
  ev_type :: string
  ev_timestamp :: string
  ev_message :: string
  ev_has_info :: bool
  ev_extra :: "(string \<times> json) list"

text \<open>The files of one job directory; \<open>None\<close> is a file that does not exist.\<close>

record job_dir =
  job_summary_json :: "summary option"
  summary_json :: "summary option"
  runs_json :: "run_entry list option"
  run_files :: "string \<rightharpoonup> run_entry"
  log_files :: "string \<rightharpoonup> string list"
  repository_info_json :: "(string \<times> json) list option"
  archives_json :: "json option"
  event_files :: "string \<rightharpoonup> event_data"
  info_files :: "string \<rightharpoonup> string"

definition empty_dir :: job_dir where
  "empty_dir = \<lparr> job_summary_json = None, summary_json = None, runs_json = None,
                 run_files = Map.empty, log_files = Map.empty,
                 repository_info_json = None, archives_json = None,
                 event_files = Map.empty, info_files = Map.empty \<rparr>"

text \<open>\<open>store_event\<close> (storage.py 879-919). \<open>suffix\<close> is \<open>uuid.uuid4().hex[:8]\<close>.\<close>

definition store_event ::
  "job_dir \<Rightarrow> string \<Rightarrow> string \<Rightarrow> string \<Rightarrow> string option \<Rightarrow> (string \<times> json) list option
     \<Rightarrow> string \<Rightarrow> string \<Rightarrow> string \<Rightarrow> string \<times> job_dir" where
  "store_event d job_id event_type message info extra ts suffix now =
     (let event_id = ts @ ''_'' @ suffix;
          ev = \<lparr> ev_id = event_id, ev_type = event_type, ev_timestamp = ts,
                 ev_message = message, ev_has_info = (info \<noteq> None),
                 ev_extra = (case extra of None \<Rightarrow> [] | Some kvs \<Rightarrow> kvs) \<rparr>;
          d1 = d\<lparr> event_files := (event_files d)(event_id \<mapsto> ev) \<rparr>;
          d2 = (case info of
                  None \<Rightarrow> d1
                | Some txt \<Rightarrow> if txt = [] then d1
                             else d1\<lparr> info_files := (info_files d1)(event_id \<mapsto> txt) \<rparr>);
          d3 = d2\<lparr> job_summary_json :=
                      update_summary_from_event (job_summary_json d2) job_id event_type ts now extra \<rparr>
      in (event_id, d3))"













section \<open>Repository snapshot ingest\<close>

text \<open>
  \<open>_format_size\<close> (storage.py 817-827) compares with zero and then works in floating
  point; \<open>float_size\<close> stands for \<open>float(size_bytes)\<close> with the unit loop and the
  \<open>.1f\<close> rendering, \<open>float_ratio\<close> for
  \<open>f"{(1 - compressed_size / total_size) * 100:.1f}%"\<close>. Both are parameters of
  the store: floating-point arithmetic is outside the model, and each may raise.
\<close>

fun py_eq0 :: "json \<Rightarrow> bool" where
  "py_eq0 (JInt n) = (n = 0)"
| "py_eq0 (JBool b) = (\<not> b)"
| "py_eq0 _ = False"

fun py_gt0 :: "json \<Rightarrow> error + bool" where
  "py_gt0 (JInt n) = Inr (0 < n)"
| "py_gt0 (JBool b) = Inr b"
| "py_gt0 _ = Inl TypeError"

fun py_len :: "json \<Rightarrow> error + int" where
  "py_len (JArr xs) = Inr (int (length xs))"
| "py_len (JStr s) = Inr (int (length s))"
| "py_len (JObj kvs) = Inr (int (length kvs))"
| "py_len _ = Inl TypeError"

definition format_size :: "(json \<Rightarrow> error + string) \<Rightarrow> json \<Rightarrow> error + string" where
  "format_size float_size size_bytes =
     (if py_eq0 size_bytes then Inr ''0 B'' else float_size size_bytes)"

definition bind_err :: "error + 'a \<Rightarrow> ('a \<Rightarrow> error + 'b) \<Rightarrow> error + 'b" where
  "bind_err m f = (case m of Inl e \<Rightarrow> Inl e | Inr x \<Rightarrow> f x)"

definition dict_get :: "(string \<times> json) list \<Rightarrow> string \<Rightarrow> json \<Rightarrow> json" where
  "dict_get kvs k dflt = (case map_of kvs k of None \<Rightarrow> dflt | Some v \<Rightarrow> v)"

text \<open>
  \<open>'location' in x\<close> and \<open>x['location']\<close> for a JSON value \<open>x\<close>: membership is
  a key test on a dict, an element test on a list and a substring test on a string;
  only a dict can be subscripted with a string.
\<close>

fun is_prefix :: "string \<Rightarrow> string \<Rightarrow> bool" where
  "is_prefix [] s = True"
| "is_prefix (c # cs) [] = False"
| "is_prefix (c # cs) (x # xs) = (c = x \<and> is_prefix cs xs)"

fun contains_str :: "string \<Rightarrow> string \<Rightarrow> bool" where
  "contains_str k [] = (k = [])"
| "contains_str k (c # cs) = (is_prefix k (c # cs) \<or> contains_str k cs)"

fun py_in :: "string \<Rightarrow> json \<Rightarrow> error + bool" where
  "py_in k (JObj kvs) = Inr (map_of kvs k \<noteq> None)"
| "py_in k (JArr xs) = Inr (JStr k \<in> set xs)"
| "py_in k (JStr s) = Inr (contains_str k s)"
| "py_in k _ = Inl TypeError"

fun py_subscript :: "json \<Rightarrow> string \<Rightarrow> error + json" where
  "py_subscript (JObj kvs) k = (case map_of kvs k of None \<Rightarrow> Inl KeyError | Some v \<Rightarrow> Inr v)"
| "py_subscript _ k = Inl TypeError"

definition repo_location :: "(string \<times> json) list \<Rightarrow> error + json option" where
  "repo_location repository_info =
     (case map_of repository_info ''repository'' of
        None \<Rightarrow> Inr None
      | Some r \<Rightarrow>
          bind_err (py_in ''location'' r) (\<lambda>present.
            if present then bind_err (py_subscript r ''location'') (\<lambda>v. Inr (Some v))
            else Inr None))"

text \<open>\<open>_update_summary_from_borg_info\<close> (storage.py 762-814).\<close>

definition compression_ratio ::
  "(json \<Rightarrow> json \<Rightarrow> error + string) \<Rightarrow> json \<Rightarrow> json \<Rightarrow> error + string" where
  "compression_ratio float_ratio total_size compressed_size =
     bind_err (py_gt0 total_size) (\<lambda>total_pos.
       if total_pos
       then bind_err (py_gt0 compressed_size) (\<lambda>compressed_pos.
              if compressed_pos then float_ratio compressed_size total_size else Inr ''0%'')
       else Inr ''0%'')"

definition size_fields ::
  "(json \<Rightarrow> error + string) \<Rightarrow> (json \<Rightarrow> json \<Rightarrow> error + string) \<Rightarrow> json \<Rightarrow> summary
     \<Rightarrow> error + summary" where
  "size_fields float_size float_ratio repo_stats c =
     bind_err (py_get repo_stats ''total_size'' (JInt 0)) (\<lambda>total_size.
     bind_err (py_get repo_stats ''total_csize'' (JInt 0)) (\<lambda>compressed_size.
     bind_err (py_get repo_stats ''unique_size'' (JInt 0)) (\<lambda>deduplicated_size.
     bind_err (format_size float_size total_size) (\<lambda>full.
     bind_err (format_size float_size compressed_size) (\<lambda>compressed.
     bind_err (format_size float_size deduplicated_size) (\<lambda>deduplicated.
     bind_err (compression_ratio float_ratio total_size compressed_size) (\<lambda>ratio.
       Inr (c(''full_size'' \<mapsto> JStr full,
              ''compressed_size'' \<mapsto> JStr compressed,
              ''deduplicated_size'' \<mapsto> JStr deduplicated,
              ''compression_ratio'' \<mapsto> JStr ratio)))))))))"

definition borg_info_summary ::
  "(json \<Rightarrow> error + string) \<Rightarrow> (json \<Rightarrow> json \<Rightarrow> error + string) \<Rightarrow> summary option \<Rightarrow> string
     \<Rightarrow> (string \<times> json) list \<Rightarrow> json \<Rightarrow> string \<Rightarrow> error + summary" where
  "borg_info_summary float_size float_ratio file job_id repository_info archive_list now =
     bind_err (py_len archive_list) (\<lambda>n.
     bind_err (py_get (dict_get repository_info ''cache'' (JObj [])) ''stats'' (JObj [])) (\<lambda>repo_stats.
     bind_err (if truthy repo_stats
               then size_fields float_size float_ratio repo_stats
                      ((load_summary file)(''archive_count'' \<mapsto> JInt n))
               else Inr ((load_summary file)(''archive_count'' \<mapsto> JInt n))) (\<lambda>c2.
     bind_err (repo_location repository_info) (\<lambda>loc.
       (let c3 = (case loc of None \<Rightarrow> c2 | Some v \<Rightarrow> c2(''repository_path'' \<mapsto> v));
            c4 = c3(''last_updated'' \<mapsto> JStr now);
            c5 = c4(''job_id'' \<mapsto> JStr job_id);
            c6 = setdefault c5 ''backup_type'' (JStr ''borgmatic'');
            c7 = setdefault c6 ''status'' (JStr ''unknown'');
            c8 = setdefault c7 ''schedule_status'' (JStr ''unknown'')
        in Inr c8)))))"

text \<open>An exception inside the update is logged and the summary file is left as it was.\<close>

definition update_summary_from_borg_info ::
  "(json \<Rightarrow> error + string) \<Rightarrow> (json \<Rightarrow> json \<Rightarrow> error + string) \<Rightarrow> summary option \<Rightarrow> string
     \<Rightarrow> (string \<times> json) list \<Rightarrow> json \<Rightarrow> string \<Rightarrow> summary option" where
  "update_summary_from_borg_info float_size float_ratio file job_id repository_info archive_list now =
     (case borg_info_summary float_size float_ratio file job_id repository_info archive_list now of
        Inl err \<Rightarrow> file
      | Inr c \<Rightarrow> Some c)"

text \<open>\<open>store_borg_info\<close> (storage.py 463-488).\<close>

definition store_borg_info ::
  "(json \<Rightarrow> error + string) \<Rightarrow> (json \<Rightarrow> json \<Rightarrow> error + string) \<Rightarrow> job_dir \<Rightarrow> string
     \<Rightarrow> (string \<times> json) list \<Rightarrow> json list \<Rightarrow> string \<Rightarrow> job_dir" where
  "store_borg_info float_size float_ratio d job_id repository_info archive_list now =
     (let d1 = d\<lparr> repository_info_json := Some repository_info \<rparr>;
          d2 = d1\<lparr> archives_json := Some (JArr archive_list) \<rparr>
      in d2\<lparr> job_summary_json :=
                update_summary_from_borg_info float_size float_ratio (job_summary_json d2) job_id
                  repository_info (JArr archive_list) now \<rparr>)"


section \<open>Schedule evaluation\<close>

text \<open>
  \<open>MAX_AGE_PATTERN = re.compile(r'^(\d+)([mhd])$')\<close>, applied with \<open>match\<close>
  (validation.py 23, 49): a greedy run of decimal digits, one unit letter, and then the
  end of the string; Python's \<open>$\<close> also matches just before a newline that ends the
  string. The groups are the digits and the unit.
\<close>

definition is_digit :: "char \<Rightarrow> bool" where
  "is_digit c \<longleftrightarrow> c \<in> set ''0123456789''"

definition newline :: char where
  "newline = CHR 0x0A"

definition max_age_match :: "string \<Rightarrow> (string \<times> char) option" where
  "max_age_match s =
     (let digits = takeWhile is_digit s; rest = dropWhile is_digit s
      in if digits = [] then None
         else (case rest of
                 [u] \<Rightarrow> if u \<in> set ''mhd'' then Some (digits, u) else None
               | [u, e] \<Rightarrow> if u \<in> set ''mhd'' \<and> e = newline then Some (digits, u) else None
               | _ \<Rightarrow> None))"

text \<open>\<open>int(value)\<close> on a run of decimal digits.\<close>

definition int_of_digits :: "string \<Rightarrow> int" where
  "int_of_digits ds = foldl (\<lambda>acc c. 10 * acc + (int (of_char c) - 48)) 0 ds"

text \<open>\<open>parse_max_age_to_seconds\<close> (validation.py 46-63).\<close>

definition parse_max_age_to_seconds :: "string \<Rightarrow> error + int" where
  "parse_max_age_to_seconds max_age =
     (case max_age_match max_age of
        None \<Rightarrow> Inl (ValueError (''Invalid max_age format: '' @ max_age))
      | Some (digits, unit) \<Rightarrow>
          (let v = int_of_digits digits
           in if unit = CHR ''m'' then Inr (v * 60)
              else if unit = CHR ''h'' then Inr (v * 3600)
              else if unit = CHR ''d'' then Inr (v * 86400)
              else Inl (ValueError (''Invalid max_age unit: '' @ [unit]))))"

text \<open>\<open>validate_max_age\<close> (validation.py 39-44).\<close>

definition validate_max_age :: "string \<Rightarrow> bool" where
  "validate_max_age max_age \<longleftrightarrow> max_age \<noteq> [] \<and> max_age_match max_age \<noteq> None"

section \<open>Borgmatic snapshots\<close>

text \<open>
  \<open>info_data\<close> and \<open>rinfo_data\<close> are typed
  \<open>Union[List[Dict[str, Any]], Dict[str, Any]]\<close> (push_models.py 31-42).
\<close>

datatype borgmatic_data =
    RepoList "(string \<times> json) list list"
  | RepoDict "(string \<times> json) list"

text \<open>Iterating a JSON value: the elements of a list, the keys of a dict, the characters of a string.\<close>

fun py_iter :: "json \<Rightarrow> error + json list" where
  "py_iter (JArr xs) = Inr xs"
| "py_iter (JObj kvs) = Inr (map (\<lambda>kv. JStr (fst kv)) kvs)"
| "py_iter (JStr s) = Inr (map (\<lambda>c. JStr [c]) s)"
| "py_iter _ = Inl TypeError"

text \<open>\<open>_extract_repository_info\<close> (storage.py 441-461).\<close>

definition extract_repository_info :: "(string \<times> json) list \<Rightarrow> (string \<times> json) list" where
  "extract_repository_info data =
     List.map_filter (\<lambda>k. map_option (Pair k) (map_of data k))
       [''repository'', ''cache'', ''encryption'', ''security_dir'']"

text \<open>\<open>data.get('repository', {}).get('location', '')\<close> and \<open>.get('label')\<close>.\<close>

definition repository_location :: "(string \<times> json) list \<Rightarrow> error + json" where
  "repository_location data = py_get (dict_get data ''repository'' (JObj [])) ''location'' (JStr [])"

definition repository_label_of :: "(string \<times> json) list \<Rightarrow> error + json" where
  "repository_label_of data = py_get (dict_get data ''repository'' (JObj [])) ''label'' JNull"

text \<open>
  The tail shared by \<open>store_borgmatic_info\<close> and \<open>store_borgmatic_rinfo\<close>: the
  two files are written when their content is non-empty. \<open>fallback\<close> is the info
  variant's \<open>elif archives\<close> branch with the dummy repository info.
\<close>

definition write_unified ::
  "(json \<Rightarrow> error + string) \<Rightarrow> (json \<Rightarrow> json \<Rightarrow> error + string) \<Rightarrow> bool \<Rightarrow> job_dir \<Rightarrow> string
     \<Rightarrow> (string \<times> json) list \<Rightarrow> json \<Rightarrow> json \<Rightarrow> string \<Rightarrow> job_dir" where
  "write_unified float_size float_ratio fallback d job_id repository_info archives repository_path now =
     (let d1 = (if repository_info \<noteq> [] then d\<lparr> repository_info_json := Some repository_info \<rparr> else d);
          d2 = (if truthy archives then d1\<lparr> archives_json := Some archives \<rparr> else d1)
      in if truthy archives \<and> repository_info \<noteq> []
         then d2\<lparr> job_summary_json :=
                    update_summary_from_borg_info float_size float_ratio (job_summary_json d2) job_id
                      repository_info archives now \<rparr>
         else if truthy archives \<and> fallback
         then d2\<lparr> job_summary_json :=
                    update_summary_from_borg_info float_size float_ratio (job_summary_json d2) job_id
                      [(''repository'', JObj [(''location'', repository_path)])] archives now \<rparr>
         else d2)"

text \<open>\<open>store_borgmatic_info\<close> (storage.py 491-542).\<close>

definition info_parts :: "(string \<times> json) list \<Rightarrow> error + (string \<times> json) list \<times> json \<times> json" where
  "info_parts repo =
     bind_err (repository_location repo) (\<lambda>repository_path.
       Inr (extract_repository_info repo, dict_get repo ''archives'' (JArr []), repository_path))"

definition store_borgmatic_info ::
  "(json \<Rightarrow> error + string) \<Rightarrow> (json \<Rightarrow> json \<Rightarrow> error + string) \<Rightarrow> job_dir \<Rightarrow> string
     \<Rightarrow> borgmatic_data \<Rightarrow> string \<Rightarrow> error + job_dir" where
  "store_borgmatic_info float_size float_ratio d job_id info_data now =
     bind_err (case info_data of
                 RepoList [] \<Rightarrow> Inr ([], JArr [], JStr [])
               | RepoList (first_repo # others) \<Rightarrow> info_parts first_repo
               | RepoDict data \<Rightarrow> info_parts data)
       (\<lambda>(repository_info, archives, repository_path).
          Inr (write_unified float_size float_ratio True d job_id repository_info archives
                 repository_path now))"

text \<open>\<open>store_borgmatic_rinfo\<close> (storage.py 545-593).\<close>

fun rinfo_loop ::
  "(string \<times> json) list list \<Rightarrow> (string \<times> json) list \<Rightarrow> json list \<Rightarrow> json
     \<Rightarrow> error + (string \<times> json) list \<times> json \<times> json" where
  "rinfo_loop [] repository_info archives repository_path =
     Inr (repository_info, JArr archives, repository_path)"
| "rinfo_loop (repo_info # rest) repository_info archives repository_path =
     bind_err (case map_of repo_info ''archives'' of
                 None \<Rightarrow> Inr archives
               | Some a \<Rightarrow> bind_err (py_iter a) (\<lambda>xs. Inr (archives @ xs))) (\<lambda>archives'.
       if repository_info = [] \<and> repo_info \<noteq> []
       then bind_err (repository_location repo_info) (\<lambda>path.
              rinfo_loop rest (extract_repository_info repo_info) archives' path)
       else rinfo_loop rest repository_info archives' repository_path)"

definition store_borgmatic_rinfo ::
  "(json \<Rightarrow> error + string) \<Rightarrow> (json \<Rightarrow> json \<Rightarrow> error + string) \<Rightarrow> job_dir \<Rightarrow> string
     \<Rightarrow> borgmatic_data \<Rightarrow> string \<Rightarrow> error + job_dir" where
  "store_borgmatic_rinfo float_size float_ratio d job_id rinfo_data now =
     bind_err (case rinfo_data of
                 RepoList repos \<Rightarrow> rinfo_loop repos [] [] (JStr [])
               | RepoDict data \<Rightarrow> info_parts data)
       (\<lambda>(repository_info, archives, repository_path).
          Inr (write_unified float_size float_ratio False d job_id repository_info archives
                 repository_path now))"

text \<open>
  \<open>filter_borgmatic_data\<close> (storage.py 596-628). The search returns the first dict
  whose \<open>repository.label\<close> equals the label; an exception anywhere gives \<open>{}\<close>
  for a list and the data itself for a dict.
\<close>

fun find_label :: "string \<Rightarrow> json list \<Rightarrow> error + (string \<times> json) list option" where
  "find_label l [] = Inr None"
| "find_label l (JObj kvs # rest) =
     bind_err (repository_label_of kvs) (\<lambda>v.
       if v = JStr l then Inr (Some kvs) else find_label l rest)"
| "find_label l (x # rest) = find_label l rest"

definition first_or_empty :: "(string \<times> json) list list \<Rightarrow> (string \<times> json) list" where
  "first_or_empty xs = (case xs of [] \<Rightarrow> [] | x # rest \<Rightarrow> x)"

definition filter_borgmatic_data :: "borgmatic_data \<Rightarrow> string \<Rightarrow> (string \<times> json) list" where
  "filter_borgmatic_data data repository_label =
     (if repository_label = []
      then (case data of RepoList xs \<Rightarrow> first_or_empty xs | RepoDict dd \<Rightarrow> dd)
      else (case data of
              RepoList xs \<Rightarrow>
                (case find_label repository_label (map JObj xs) of
                   Inl err \<Rightarrow> []
                 | Inr (Some repo_data) \<Rightarrow> repo_data
                 | Inr None \<Rightarrow> first_or_empty xs)
            | RepoDict dd \<Rightarrow>
                (case repository_label_of dd of
                   Inl err \<Rightarrow> dd
                 | Inr repo_label \<Rightarrow>
                     if repo_label = JStr repository_label \<or> \<not> truthy repo_label then dd
                     else (case map_of dd ''repositories'' of
                             None \<Rightarrow> dd
                           | Some repos \<Rightarrow>
                               (case bind_err (py_iter repos) (find_label repository_label) of
                                  Inl err \<Rightarrow> dd
                                | Inr (Some repo_data) \<Rightarrow> repo_data
                                | Inr None \<Rightarrow> dd)))))"

text \<open>
  \<open>push_borgmatic_info\<close> and \<open>push_borgmatic_rinfo\<close> (main.py 440-538).
  \<open>authorized\<close> is the result of \<open>verify_api_token_for_job\<close>. The selection and
  the store run inside one \<open>try\<close> whose \<open>except Exception\<close> turns every exception,
  the two \<open>HTTPException(400)\<close> included, into a 500.
\<close>

definition label_given :: "string option \<Rightarrow> bool" where
  "label_given repository_label = (case repository_label of None \<Rightarrow> False | Some l \<Rightarrow> l \<noteq> [])"

definition select_repository :: "borgmatic_data \<Rightarrow> string option \<Rightarrow> error + borgmatic_data" where
  "select_repository data repository_label =
     (case data of
        RepoDict dd \<Rightarrow> Inr (RepoDict dd)
      | RepoList xs \<Rightarrow>
          if 1 < length xs \<and> \<not> label_given repository_label
          then Inl (HTTPException 400
                 ''Multiple repositories found in borgmatic data. Please specify repository_label to select which one to use.'')
          else (case repository_label of
                  None \<Rightarrow> Inr (RepoDict (first_or_empty xs))
                | Some l \<Rightarrow>
                    if l = [] then Inr (RepoDict (first_or_empty xs))
                    else (let filtered_data = filter_borgmatic_data (RepoList xs) l
                          in if filtered_data = []
                             then Inl (HTTPException 400
                                    (''Repository with label '' @ [CHR 0x27] @ l @ [CHR 0x27]
                                       @ '' not found in borgmatic data''))
                             else Inr (RepoDict filtered_data))))"

definition push_borgmatic_info ::
  "(json \<Rightarrow> error + string) \<Rightarrow> (json \<Rightarrow> json \<Rightarrow> error + string) \<Rightarrow> bool \<Rightarrow> job_dir \<Rightarrow> string
     \<Rightarrow> borgmatic_data \<Rightarrow> string option \<Rightarrow> string \<Rightarrow> error + job_dir" where
  "push_borgmatic_info float_size float_ratio authorized d job_id info_data repository_label now =
     (if \<not> authorized then Inl (HTTPException 401 ''Unauthorized'')
      else (case bind_err (select_repository info_data repository_label)
                   (\<lambda>filtered_data. store_borgmatic_info float_size float_ratio d job_id filtered_data now) of
              Inl err \<Rightarrow> Inl (HTTPException 500 ''Failed to store Borgmatic info'')
            | Inr d' \<Rightarrow> Inr d'))"

definition push_borgmatic_rinfo ::
  "(json \<Rightarrow> error + string) \<Rightarrow> (json \<Rightarrow> json \<Rightarrow> error + string) \<Rightarrow> bool \<Rightarrow> job_dir \<Rightarrow> string
     \<Rightarrow> borgmatic_data \<Rightarrow> string option \<Rightarrow> string \<Rightarrow> error + job_dir" where
  "push_borgmatic_rinfo float_size float_ratio authorized d job_id rinfo_data repository_label now =
     (if \<not> authorized then Inl (HTTPException 401 ''Unauthorized'')
      else (case bind_err (select_repository rinfo_data repository_label)
                   (\<lambda>filtered_data. store_borgmatic_rinfo float_size float_ratio d job_id filtered_data now) of
              Inl err \<Rightarrow> Inl (HTTPException 500 ''Failed to store Borgmatic rinfo'')
            | Inr d' \<Rightarrow> Inr d'))"

section \<open>Verification\<close>

subsection \<open>Summary fields under defaults\<close>

lemma setdefault_other: "k' \<noteq> k \<Longrightarrow> setdefault m k v k' = m k'"
  by (simp add: setdefault_def split: option.splits)


lemma event_defaults_run_fields:
  "event_defaults c ''status'' = c ''status''"
  "event_defaults c ''last_backup'' = c ''last_backup''"
  "event_defaults c ''last_successful_backup'' = c ''last_successful_backup''"
  by (simp_all add: event_defaults_def Let_def setdefault_other)

lemma event_gate_iff:
  "event_gate event_type extra \<longleftrightarrow>
     ((event_type = ''success'' \<or> event_type = ''failed'') \<and>
      (\<exists>kvs. extra = Some kvs \<and> map_of kvs ''action'' = Some (JStr ''everything'')))"
  by (auto simp: event_gate_def event_action_def split: option.splits)

subsection \<open>Event gating\<close>

text \<open>
  C1. Every \<open>store_event\<close> call writes the summary. When the event type is
  \<open>success\<close> or \<open>failed\<close> and \<open>extra.action\<close> is \<open>"everything"\<close>, the
  summary's \<open>status\<close> becomes the event type and \<open>last_backup\<close> the event
  timestamp, and \<open>last_successful_backup\<close> becomes the event timestamp when the type is
  \<open>success\<close> (it keeps its value otherwise). For any other type or action,
  \<open>status\<close>, \<open>last_backup\<close> and \<open>last_successful_backup\<close> are what they were
  before the call.
\<close>

theorem store_event_gating:
  fixes d :: job_dir
  defines "before \<equiv> load_summary (job_summary_json d)"
  shows
  "(let d' = snd (store_event d job_id event_type message info extra ts suffix now);
        after = load_summary (job_summary_json d')
    in job_summary_json d' \<noteq> None \<and>
       (((event_type = ''success'' \<or> event_type = ''failed'') \<and>
         (\<exists>kvs. extra = Some kvs \<and> map_of kvs ''action'' = Some (JStr ''everything'')))
        \<longrightarrow> after ''status'' = Some (JStr event_type) \<and>
            after ''last_backup'' = Some (JStr ts) \<and>
            after ''last_successful_backup'' =
              (if event_type = ''success'' then Some (JStr ts)
               else before ''last_successful_backup'')) \<and>
       (\<not> ((event_type = ''success'' \<or> event_type = ''failed'') \<and>
            (\<exists>kvs. extra = Some kvs \<and> map_of kvs ''action'' = Some (JStr ''everything'')))
        \<longrightarrow> after ''status'' = before ''status'' \<and>
            after ''last_backup'' = before ''last_backup'' \<and>
            after ''last_successful_backup'' = before ''last_successful_backup''))"
  unfolding before_def event_gate_iff [symmetric]
  by (cases info)
     (simp_all add: store_event_def update_summary_from_event_def Let_def load_summary_def
        event_defaults_run_fields)

theorem store_event_gating_witness:
  "load_summary (job_summary_json (snd (store_event empty_dir ''job'' ''success'' ''done'' None
       (Some [(''action'', JStr ''everything'')]) ''2024-05-01T10:00:00'' ''0a1b2c3d''
       ''2024-05-01T10:00:01''))) ''status'' = Some (JStr ''success'')
   \<and> load_summary (job_summary_json (snd (store_event empty_dir ''job'' ''success'' ''done'' None
       (Some [(''action'', JStr ''everything'')]) ''2024-05-01T10:00:00'' ''0a1b2c3d''
       ''2024-05-01T10:00:01''))) ''last_successful_backup'' = Some (JStr ''2024-05-01T10:00:00'')
   \<and> load_summary (job_summary_json (snd (store_event empty_dir ''job'' ''success'' ''done'' None
       (Some [(''action'', JStr ''step-a'')]) ''2024-05-01T10:00:00'' ''0a1b2c3d''
       ''2024-05-01T10:00:01''))) ''status'' = None"
  using store_event_gating [where d = empty_dir and job_id = "''job''" and event_type = "''success''"
          and message = "''done''" and info = None
          and extra = "Some [(''action'', JStr ''everything'')]"
          and ts = "''2024-05-01T10:00:00''" and suffix = "''0a1b2c3d''"
          and now = "''2024-05-01T10:00:01''"]
        store_event_gating [where d = empty_dir and job_id = "''job''" and event_type = "''success''"
          and message = "''done''" and info = None
          and extra = "Some [(''action'', JStr ''step-a'')]"
          and ts = "''2024-05-01T10:00:00''" and suffix = "''0a1b2c3d''"
          and now = "''2024-05-01T10:00:01''"]
  by (simp add: Let_def empty_dir_def load_summary_def)

subsection \<open>The snapshot update of the summary\<close>

lemma bind_err_Inr_iff: "bind_err m f = Inr y \<longleftrightarrow> (\<exists>x. m = Inr x \<and> f x = Inr y)"
  by (cases m) (simp_all add: bind_err_def)

lemma bind_err_Inl_iff: "bind_err m f = Inl e \<longleftrightarrow> (m = Inl e \<or> (\<exists>x. m = Inr x \<and> f x = Inl e))"
  by (cases m) (simp_all add: bind_err_def)

lemma size_fields_Inr:
  assumes "size_fields fs fr st c = Inr c'"
  shows "\<exists>a b u r. \<forall>c0. size_fields fs fr st c0 =
           Inr (c0(''full_size'' \<mapsto> JStr a, ''compressed_size'' \<mapsto> JStr b,
                   ''deduplicated_size'' \<mapsto> JStr u, ''compression_ratio'' \<mapsto> JStr r))"
  using assms unfolding size_fields_def bind_err_Inr_iff
  apply (elim exE conjE)
  apply (simp add: bind_err_def)
  apply (intro exI allI)
  apply (rule refl)
  done

lemma size_fields_Inl:
  assumes "size_fields fs fr st c = Inl e"
  shows "size_fields fs fr st c0 = Inl e"
  using assms unfolding size_fields_def
  by (auto simp: bind_err_def split: sum.splits)

lemma stats_step_Inl:
  assumes "(if truthy st then size_fields fs fr st c else Inr c) = Inl e"
  shows "(if truthy st then size_fields fs fr st c0 else Inr c0) = Inl e"
  using assms by (auto dest: size_fields_Inl split: if_splits)

lemma stats_step_Inr:
  assumes "(if truthy st then size_fields fs fr st c else Inr c) = Inr c'"
  shows "\<exists>e'. (if truthy st then size_fields fs fr st c0 else Inr c0) = Inr e'"
  using assms by (auto dest: size_fields_Inr split: if_splits)

lemma borg_info_summary_Inl:
  assumes "borg_info_summary fs fr file j r a now = Inl e"
  shows "borg_info_summary fs fr file2 j r a now2 = Inl e"
proof -
  from assms consider
      (len) "py_len a = Inl e"
    | (get) n where "py_len a = Inr n"
        "py_get (dict_get r ''cache'' (JObj [])) ''stats'' (JObj []) = Inl e"
    | (stats) n st where "py_len a = Inr n"
        "py_get (dict_get r ''cache'' (JObj [])) ''stats'' (JObj []) = Inr st"
        "(if truthy st then size_fields fs fr st ((load_summary file)(''archive_count'' \<mapsto> JInt n))
              else Inr ((load_summary file)(''archive_count'' \<mapsto> JInt n))) = Inl e"
    | (loc) n st c2 where "py_len a = Inr n"
        "py_get (dict_get r ''cache'' (JObj [])) ''stats'' (JObj []) = Inr st"
        "(if truthy st then size_fields fs fr st ((load_summary file)(''archive_count'' \<mapsto> JInt n))
              else Inr ((load_summary file)(''archive_count'' \<mapsto> JInt n))) = Inr c2"
        "repo_location r = Inl e"
    unfolding borg_info_summary_def bind_err_Inl_iff by (auto simp: Let_def)
  then show ?thesis
  proof cases
    case len
    then show ?thesis by (simp add: borg_info_summary_def bind_err_def)
  next
    case get
    then show ?thesis by (simp add: borg_info_summary_def bind_err_def)
  next
    case stats
    from stats_step_Inl [OF stats(3)] stats(1,2) show ?thesis
      by (simp add: borg_info_summary_def bind_err_def)
  next
    case loc
    from stats_step_Inr [OF loc(3)] obtain e' where
      "(if truthy st then size_fields fs fr st ((load_summary file2)(''archive_count'' \<mapsto> JInt n))
              else Inr ((load_summary file2)(''archive_count'' \<mapsto> JInt n))) = Inr e'"
      by blast
    with loc(1,2,4) show ?thesis
      by (simp add: borg_info_summary_def bind_err_def)
  qed
qed

lemma setdefault_present: "m k = Some w \<Longrightarrow> setdefault m k v = m"
  by (simp add: setdefault_def)

lemma setdefault_defined: "\<exists>w. setdefault m k v k = Some w"
  by (simp add: setdefault_def split: option.splits)

lemma borg_info_summary_shape:
  assumes "borg_info_summary fs fr file j r a now = Inr c"
  obtains n st c2 loc where
    "py_len a = Inr n"
    "py_get (dict_get r ''cache'' (JObj [])) ''stats'' (JObj []) = Inr st"
    "(if truthy st then size_fields fs fr st ((load_summary file)(''archive_count'' \<mapsto> JInt n))
              else Inr ((load_summary file)(''archive_count'' \<mapsto> JInt n))) = Inr c2"
    "repo_location r = Inr loc"
    "c = setdefault (setdefault (setdefault
           ((case loc of None \<Rightarrow> c2 | Some v \<Rightarrow> c2(''repository_path'' \<mapsto> v))
              (''last_updated'' \<mapsto> JStr now, ''job_id'' \<mapsto> JStr j))
           ''backup_type'' (JStr ''borgmatic'')) ''status'' (JStr ''unknown''))
           ''schedule_status'' (JStr ''unknown'')"
  using assms unfolding borg_info_summary_def bind_err_Inr_iff Let_def by auto

lemma closing_again:
  fixes B :: summary
  assumes c: "c = setdefault (setdefault (setdefault
           (B(''last_updated'' \<mapsto> JStr now, ''job_id'' \<mapsto> JStr j))
           ''backup_type'' (JStr ''borgmatic'')) ''status'' (JStr ''unknown''))
           ''schedule_status'' (JStr ''unknown'')"
  shows "setdefault (setdefault (setdefault
           (c(''last_updated'' \<mapsto> JStr now2, ''job_id'' \<mapsto> JStr j))
           ''backup_type'' (JStr ''borgmatic'')) ''status'' (JStr ''unknown''))
           ''schedule_status'' (JStr ''unknown'') = c(''last_updated'' \<mapsto> JStr now2)"
proof -
  have job: "c ''job_id'' = Some (JStr j)"
    by (simp add: c setdefault_other)
  obtain w1 where w1: "c ''backup_type'' = Some w1"
    using setdefault_defined [of "B(''last_updated'' \<mapsto> JStr now, ''job_id'' \<mapsto> JStr j)"
        "''backup_type''" "JStr ''borgmatic''"]
    by (auto simp: c setdefault_other)
  obtain w2 where w2: "c ''status'' = Some w2"
    using setdefault_defined [of "setdefault (B(''last_updated'' \<mapsto> JStr now, ''job_id'' \<mapsto> JStr j))
        ''backup_type'' (JStr ''borgmatic'')" "''status''" "JStr ''unknown''"]
    by (auto simp: c setdefault_other)
  obtain w3 where w3: "c ''schedule_status'' = Some w3"
    using setdefault_defined [of "setdefault (setdefault (B(''last_updated'' \<mapsto> JStr now, ''job_id'' \<mapsto> JStr j))
        ''backup_type'' (JStr ''borgmatic'')) ''status'' (JStr ''unknown'')" "''schedule_status''" "JStr ''unknown''"]
    by (auto simp: c)
  have a: "c(''last_updated'' \<mapsto> JStr now2, ''job_id'' \<mapsto> JStr j) = c(''last_updated'' \<mapsto> JStr now2)"
    by (rule map_upd_triv) (simp add: job)
  have b: "setdefault (c(''last_updated'' \<mapsto> JStr now2)) ''backup_type'' (JStr ''borgmatic'') = c(''last_updated'' \<mapsto> JStr now2)"
    by (rule setdefault_present [where w = w1]) (simp add: w1)
  have c': "setdefault (c(''last_updated'' \<mapsto> JStr now2)) ''status'' (JStr ''unknown'') = c(''last_updated'' \<mapsto> JStr now2)"
    by (rule setdefault_present [where w = w2]) (simp add: w2)
  have d: "setdefault (c(''last_updated'' \<mapsto> JStr now2)) ''schedule_status'' (JStr ''unknown'') = c(''last_updated'' \<mapsto> JStr now2)"
    by (rule setdefault_present [where w = w3]) (simp add: w3)
  show ?thesis by (simp only: a b c' d)
qed

lemma borg_info_summary_again:
  assumes "borg_info_summary fs fr file j r a now = Inr c"
  shows "borg_info_summary fs fr (Some c) j r a now2 = Inr (c(''last_updated'' \<mapsto> JStr now2))"
proof -
  from assms obtain n st c2 loc where
    n: "py_len a = Inr n"
    and st: "py_get (dict_get r ''cache'' (JObj [])) ''stats'' (JObj []) = Inr st"
    and c2: "(if truthy st then size_fields fs fr st ((load_summary file)(''archive_count'' \<mapsto> JInt n))
              else Inr ((load_summary file)(''archive_count'' \<mapsto> JInt n))) = Inr c2"
    and loc: "repo_location r = Inr loc"
    and c: "c = setdefault (setdefault (setdefault
           ((case loc of None \<Rightarrow> c2 | Some v \<Rightarrow> c2(''repository_path'' \<mapsto> v))
              (''last_updated'' \<mapsto> JStr now, ''job_id'' \<mapsto> JStr j))
           ''backup_type'' (JStr ''borgmatic'')) ''status'' (JStr ''unknown''))
           ''schedule_status'' (JStr ''unknown'')"
    by (rule borg_info_summary_shape)
  define B where "B = (case loc of None \<Rightarrow> c2 | Some v \<Rightarrow> c2(''repository_path'' \<mapsto> v))"
  have cB: "c = setdefault (setdefault (setdefault
           (B(''last_updated'' \<mapsto> JStr now, ''job_id'' \<mapsto> JStr j))
           ''backup_type'' (JStr ''borgmatic'')) ''status'' (JStr ''unknown''))
           ''schedule_status'' (JStr ''unknown'')"
    by (simp add: c B_def)
  have keep: "c k = B k" if "k \<in> {''archive_count'', ''full_size'', ''compressed_size'',
      ''deduplicated_size'', ''compression_ratio'', ''repository_path''}" for k
    using that by (auto simp: cB setdefault_other)
  have rp: "c(''repository_path'' \<mapsto> v) = c" if "loc = Some v" for v
    by (rule map_upd_triv) (simp add: keep B_def that)
  have ac: "c2 ''archive_count'' = Some (JInt n)"
  proof (cases "truthy st")
    case True
    with c2 have "size_fields fs fr st ((load_summary file)(''archive_count'' \<mapsto> JInt n)) = Inr c2"
      by simp
    then show ?thesis
      unfolding size_fields_def bind_err_Inr_iff by auto
  next
    case False
    with c2 show ?thesis by auto
  qed
  have acB: "B ''archive_count'' = Some (JInt n)"
    by (simp add: B_def ac split: option.splits)
  have ac': "c(''archive_count'' \<mapsto> JInt n) = c"
    by (rule map_upd_triv) (simp add: keep acB)
  have step: "(if truthy st then size_fields fs fr st (c(''archive_count'' \<mapsto> JInt n))
              else Inr (c(''archive_count'' \<mapsto> JInt n))) = Inr c"
  proof (cases "truthy st")
    case False
    then show ?thesis by (simp add: ac')
  next
    case True
    with c2 have "size_fields fs fr st ((load_summary file)(''archive_count'' \<mapsto> JInt n)) = Inr c2"
      by simp
    from size_fields_Inr [OF this] obtain x b u q where
      sf: "\<And>c0. size_fields fs fr st c0 =
           Inr (c0(''full_size'' \<mapsto> JStr x, ''compressed_size'' \<mapsto> JStr b,
                   ''deduplicated_size'' \<mapsto> JStr u, ''compression_ratio'' \<mapsto> JStr q))"
      by blast
    from c2 True have c2': "c2 = (load_summary file)(''archive_count'' \<mapsto> JInt n,
        ''full_size'' \<mapsto> JStr x, ''compressed_size'' \<mapsto> JStr b,
                   ''deduplicated_size'' \<mapsto> JStr u, ''compression_ratio'' \<mapsto> JStr q)"
      by (simp add: sf)
    have f1: "c(''full_size'' \<mapsto> JStr x) = c"
      by (rule map_upd_triv) (simp add: keep B_def c2' split: option.splits)
    have f2: "c(''compressed_size'' \<mapsto> JStr b) = c"
      by (rule map_upd_triv) (simp add: keep B_def c2' split: option.splits)
    have f3: "c(''deduplicated_size'' \<mapsto> JStr u) = c"
      by (rule map_upd_triv) (simp add: keep B_def c2' split: option.splits)
    have f4: "c(''compression_ratio'' \<mapsto> JStr q) = c"
      by (rule map_upd_triv) (simp add: keep B_def c2' split: option.splits)
    show ?thesis using True by (simp only: sf ac' f1 f2 f3 f4 if_True)
  qed
  have B2: "(case loc of None \<Rightarrow> c | Some v \<Rightarrow> c(''repository_path'' \<mapsto> v)) = c"
    by (cases loc) (simp_all add: rp)
  have "borg_info_summary fs fr (Some c) j r a now2 =
      Inr (setdefault (setdefault (setdefault
           (c(''last_updated'' \<mapsto> JStr now2, ''job_id'' \<mapsto> JStr j))
           ''backup_type'' (JStr ''borgmatic'')) ''status'' (JStr ''unknown''))
           ''schedule_status'' (JStr ''unknown''))"
    unfolding borg_info_summary_def
    by (simp only: n st loc bind_err_def sum.case load_summary_def option.case step Let_def B2)
  then show ?thesis by (simp only: closing_again [OF cB])
qed

subsection \<open>Re-ingesting the same snapshot\<close>

text \<open>
  C8. Calling \<open>store_borg_info\<close> twice with the same repository info and archive
  list leaves the summary as one call leaves it, apart from \<open>last_updated\<close>; the
  repository-info and archive files are those of the first call.
\<close>

theorem store_borg_info_idempotent:
  "(let d1 = store_borg_info float_size float_ratio d job_id repository_info archive_list now1;
        d2 = store_borg_info float_size float_ratio d1 job_id repository_info archive_list now2
    in map_option (\<lambda>s. s(''last_updated'' := None)) (job_summary_json d2) =
         map_option (\<lambda>s. s(''last_updated'' := None)) (job_summary_json d1) \<and>
       repository_info_json d2 = repository_info_json d1 \<and>
       archives_json d2 = archives_json d1)"
proof (cases "borg_info_summary float_size float_ratio (job_summary_json d) job_id repository_info
                (JArr archive_list) now1")
  case (Inl e)
  from borg_info_summary_Inl [OF Inl] have
    "borg_info_summary float_size float_ratio (job_summary_json d) job_id repository_info
       (JArr archive_list) now2 = Inl e" .
  with Inl show ?thesis
    by (simp add: store_borg_info_def update_summary_from_borg_info_def Let_def)
next
  case (Inr c)
  from borg_info_summary_again [OF Inr] have
    "borg_info_summary float_size float_ratio (Some c) job_id repository_info
       (JArr archive_list) now2 = Inr (c(''last_updated'' \<mapsto> JStr now2))" .
  with Inr show ?thesis
    by (simp add: store_borg_info_def update_summary_from_borg_info_def Let_def)
qed

subsection \<open>The stored compression ratio\<close>




subsection \<open>Frame of the run update and of the snapshot update\<close>









subsection \<open>Run fields and snapshot fields side by side\<close>




subsection \<open>Upsert, sort and cap of the runs list\<close>
























subsection \<open>The runs list after a stored run\<close>



subsection \<open>Parsing the maximum age\<close>

lemma max_age_match_form:
  assumes "digits \<noteq> []" and "\<forall>c \<in> set digits. is_digit c" and "u \<in> set ''mhd''"
  shows "max_age_match (digits @ [u]) = Some (digits, u)"
proof -
  have nd: "\<not> is_digit u" using assms(3) by (auto simp: is_digit_def)
  have "takeWhile is_digit (digits @ [u]) = digits"
    using assms(2) nd by (simp add: takeWhile_append2)
  moreover have "dropWhile is_digit (digits @ [u]) = [u]"
    using assms(2) nd by (simp add: dropWhile_append2)
  ultimately show ?thesis
    using assms(1,3) by (simp add: max_age_match_def Let_def)
qed

lemma parse_max_age_valid:
  assumes "digits \<noteq> []" and "\<forall>c \<in> set digits. is_digit c" and "u \<in> set ''mhd''"
  shows "parse_max_age_to_seconds (digits @ [u]) =
           Inr (int_of_digits digits *
                (if u = CHR ''m'' then 60 else if u = CHR ''h'' then 3600 else 86400))"
  using assms(3) by (auto simp: parse_max_age_to_seconds_def max_age_match_form [OF assms])

lemma parse_max_age_returns_iff:
  "(\<exists>v. parse_max_age_to_seconds s = Inr v) \<longleftrightarrow>
     (\<exists>digits u. digits \<noteq> [] \<and> (\<forall>c \<in> set digits. is_digit c) \<and> u \<in> set ''mhd'' \<and>
        (s = digits @ [u] \<or> s = digits @ [u, newline]))"
proof
  assume "\<exists>v. parse_max_age_to_seconds s = Inr v"
  then obtain digits u where m: "max_age_match s = Some (digits, u)"
    by (auto simp: parse_max_age_to_seconds_def split: option.splits)
  have s: "s = takeWhile is_digit s @ dropWhile is_digit s" by simp
  from m have d: "digits = takeWhile is_digit s" "digits \<noteq> []"
    and r: "dropWhile is_digit s = [u] \<or> dropWhile is_digit s = [u, newline]"
    and u: "u \<in> set ''mhd''"
    by (auto simp: max_age_match_def Let_def split: if_splits list.splits)
  have "\<forall>c \<in> set digits. is_digit c"
    unfolding d(1) by (auto dest: set_takeWhileD)
  moreover have "s = digits @ [u] \<or> s = digits @ [u, newline]"
    using r s d(1) by metis
  ultimately show "\<exists>digits u. digits \<noteq> [] \<and> (\<forall>c \<in> set digits. is_digit c) \<and> u \<in> set ''mhd'' \<and>
        (s = digits @ [u] \<or> s = digits @ [u, newline])"
    using d(2) u by blast
next
  assume "\<exists>digits u. digits \<noteq> [] \<and> (\<forall>c \<in> set digits. is_digit c) \<and> u \<in> set ''mhd'' \<and>
        (s = digits @ [u] \<or> s = digits @ [u, newline])"
  then obtain digits u where a: "digits \<noteq> []" "\<forall>c \<in> set digits. is_digit c" "u \<in> set ''mhd''"
    and s: "s = digits @ [u] \<or> s = digits @ [u, newline]" by blast
  have nd: "\<not> is_digit u" using a(3) by (auto simp: is_digit_def)
  from s show "\<exists>v. parse_max_age_to_seconds s = Inr v"
  proof
    assume "s = digits @ [u]"
    then show ?thesis using parse_max_age_valid [OF a] by simp
  next
    assume s2: "s = digits @ [u, newline]"
    have "takeWhile is_digit s = digits" "dropWhile is_digit s = [u, newline]"
      using a(2) nd unfolding s2 by (simp_all add: takeWhile_append2 dropWhile_append2)
    then have "max_age_match s = Some (digits, u)"
      using a(1,3) by (simp add: max_age_match_def Let_def)
    then show ?thesis using a(3) by (auto simp: parse_max_age_to_seconds_def)
  qed
qed

text \<open>
  C9. For a non-empty run of decimal digits followed by one of \<open>m\<close>, \<open>h\<close>,
  \<open>d\<close> the parser returns the number times 60, 3600 or 86400
  (\<open>parse_max_age_valid\<close>). It returns a value for exactly those strings and for
  those strings followed by one newline (\<open>parse_max_age_returns_iff\<close>): the string
  \<open>"5m\n"\<close>, which is not of the form \<open><N><unit>\<close>, parses to 300 seconds.
\<close>

theorem parse_max_age_trailing_newline:
  "parse_max_age_to_seconds [CHR ''5'', CHR ''m'', CHR 0x0A] = Inr 300"
  by (simp add: parse_max_age_to_seconds_def max_age_match_def is_digit_def newline_def
      int_of_digits_def Let_def)

subsection \<open>Repository selection by label\<close>

lemma select_repository_no_match:
  assumes "l \<noteq> []" and "find_label l (map JObj (x # xs)) = Inr None" and "x \<noteq> []"
  shows "select_repository (RepoList (x # xs)) (Some l) = Inr (RepoDict x)"
  using assms
  by (simp add: select_repository_def label_given_def filter_borgmatic_data_def first_or_empty_def
      Let_def del: find_label.simps)

lemma push_borgmatic_info_never_400:
  "push_borgmatic_info float_size float_ratio authorized d job_id info_data repository_label now
     \<noteq> Inl (HTTPException 400 msg)"
  by (simp add: push_borgmatic_info_def split: sum.splits)

text \<open>
  C4. A borgmatic info or rinfo push with the label \<open>offsite\<close> and one repository
  labelled \<open>main\<close> does not fail: the filter falls back to the first entry, the
  route's not-found check sees a non-empty dict, and the payload of \<open>main\<close> is
  stored. (When the check does fire, its 400 is turned into a 500:
  \<open>push_borgmatic_info_never_400\<close>.)
\<close>

theorem unmatched_label_stores_first_repository:
  "(case push_borgmatic_info (\<lambda>v. Inr ''0 B'') (\<lambda>z t. Inr ''0%'') True empty_dir ''job''
          (RepoList [[(''repository'', JObj [(''label'', JStr ''main''), (''location'', JStr ''/backup/main'')]),
                      (''archives'', JArr [JObj [(''name'', JStr ''a1'')]])]])
          (Some ''offsite'') ''2024-05-01T10:00:00'' of
      Inl e \<Rightarrow> False
    | Inr d' \<Rightarrow>
        repository_info_json d' =
          Some [(''repository'', JObj [(''label'', JStr ''main''), (''location'', JStr ''/backup/main'')])] \<and>
        archives_json d' = Some (JArr [JObj [(''name'', JStr ''a1'')]])) \<and>
   (case push_borgmatic_rinfo (\<lambda>v. Inr ''0 B'') (\<lambda>z t. Inr ''0%'') True empty_dir ''job''
          (RepoList [[(''repository'', JObj [(''label'', JStr ''main''), (''location'', JStr ''/backup/main'')]),
                      (''archives'', JArr [JObj [(''name'', JStr ''a1'')]])]])
          (Some ''offsite'') ''2024-05-01T10:00:00'' of
      Inl e \<Rightarrow> False
    | Inr d' \<Rightarrow>
        repository_info_json d' =
          Some [(''repository'', JObj [(''label'', JStr ''main''), (''location'', JStr ''/backup/main'')])] \<and>
        archives_json d' = Some (JArr [JObj [(''name'', JStr ''a1'')]]))"
  by (simp add: push_borgmatic_info_def push_borgmatic_rinfo_def select_repository_def
      label_given_def filter_borgmatic_data_def first_or_empty_def repository_label_of_def
      dict_get_def bind_err_def store_borgmatic_info_def store_borgmatic_rinfo_def info_parts_def
      repository_location_def extract_repository_info_def List.map_filter_simps
      write_unified_def empty_dir_def Let_def)

end
